theory Spec2Isabelle
  imports Complex_Main
begin

section \<open>Numbers, vectors and matrices\<close>

text \<open>
  JavaScript numbers are modelled by \<^typ>\<open>real\<close>: every finite value is a real, and
  arithmetic is exact. Where the source divides by a quantity that can be zero
  (\<open>Vector3.applyMatrix4\<close>), JavaScript yields an infinity or NaN; such a vector is
  written \<open>None\<close>, a vector of finite components \<open>Some v\<close>.
\<close>

datatype vec3 = Vector3 (vx: real) (vy: real) (vz: real)

text \<open>\<open>Math.hypot(a, b)\<close>.\<close>

definition hypot :: "real \<Rightarrow> real \<Rightarrow> real" where
  "hypot a b = sqrt (a * a + b * b)"

text \<open>\<open>THREE.MathUtils.lerp(x, y, t) = (1 - t) * x + t * y\<close>.\<close>

definition lerp :: "real \<Rightarrow> real \<Rightarrow> real \<Rightarrow> real" where
  "lerp x y t = (1 - t) * x + t * y"

text \<open>
  \<open>Vector3.lerp(v, alpha)\<close>: each component becomes \<open>c + (v.c - c) * alpha\<close>.
\<close>

definition lerp_vec :: "vec3 \<Rightarrow> vec3 \<Rightarrow> real \<Rightarrow> vec3" where
  "lerp_vec p v alpha =
     Vector3 (vx p + (vx v - vx p) * alpha)
             (vy p + (vy v - vy p) * alpha)
             (vz p + (vz v - vz p) * alpha)"

text \<open>
  The same on vectors that may hold a non-finite component: \<open>c + (v.c - c) * alpha\<close>
  is not finite as soon as \<open>c\<close> or \<open>v.c\<close> is not, for every \<open>alpha\<close>
  (an infinity times zero is NaN).
\<close>

definition lerp_nf :: "vec3 option \<Rightarrow> vec3 option \<Rightarrow> real \<Rightarrow> vec3 option" where
  "lerp_nf p v alpha =
     (case p of None \<Rightarrow> None
      | Some a \<Rightarrow> (case v of None \<Rightarrow> None | Some b \<Rightarrow> Some (lerp_vec a b alpha)))"

text \<open>
  \<open>THREE.Matrix4\<close>; \<open>nij\<close> is the entry of row \<open>i\<close> and column \<open>j\<close>, stored
  by the library at \<open>elements[4 * (j - 1) + (i - 1)]\<close>.
\<close>

record matrix4 =
  n11 :: real  n12 :: real  n13 :: real  n14 :: real
  n21 :: real  n22 :: real  n23 :: real  n24 :: real
  n31 :: real  n32 :: real  n33 :: real  n34 :: real
  n41 :: real  n42 :: real  n43 :: real  n44 :: real

definition identity4 :: matrix4 where
  "identity4 =
     \<lparr>n11 = 1, n12 = 0, n13 = 0, n14 = 0,
      n21 = 0, n22 = 1, n23 = 0, n24 = 0,
      n31 = 0, n32 = 0, n33 = 1, n34 = 0,
      n41 = 0, n42 = 0, n43 = 0, n44 = 1\<rparr>"

definition zero4 :: matrix4 where
  "zero4 =
     \<lparr>n11 = 0, n12 = 0, n13 = 0, n14 = 0,
      n21 = 0, n22 = 0, n23 = 0, n24 = 0,
      n31 = 0, n32 = 0, n33 = 0, n34 = 0,
      n41 = 0, n42 = 0, n43 = 0, n44 = 0\<rparr>"

text \<open>The four cofactors \<open>t11 .. t14\<close> and the determinant of \<open>Matrix4.invert\<close>.\<close>

definition t11 :: "matrix4 \<Rightarrow> real" where
  "t11 m = n23 m * n34 m * n42 m - n24 m * n33 m * n42 m + n24 m * n32 m * n43 m
         - n22 m * n34 m * n43 m - n23 m * n32 m * n44 m + n22 m * n33 m * n44 m"

definition t12 :: "matrix4 \<Rightarrow> real" where
  "t12 m = n14 m * n33 m * n42 m - n13 m * n34 m * n42 m - n14 m * n32 m * n43 m
         + n12 m * n34 m * n43 m + n13 m * n32 m * n44 m - n12 m * n33 m * n44 m"

definition t13 :: "matrix4 \<Rightarrow> real" where
  "t13 m = n13 m * n24 m * n42 m - n14 m * n23 m * n42 m + n14 m * n22 m * n43 m
         - n12 m * n24 m * n43 m - n13 m * n22 m * n44 m + n12 m * n23 m * n44 m"

definition t14 :: "matrix4 \<Rightarrow> real" where
  "t14 m = n14 m * n23 m * n32 m - n13 m * n24 m * n32 m - n14 m * n22 m * n33 m
         + n12 m * n24 m * n33 m + n13 m * n22 m * n34 m - n12 m * n23 m * n34 m"

definition det :: "matrix4 \<Rightarrow> real" where
  "det m = n11 m * t11 m + n21 m * t12 m + n31 m * t13 m + n41 m * t14 m"

text \<open>
  \<open>Matrix4.invert()\<close>: the adjugate divided by the determinant; a matrix of
  determinant zero becomes the zero matrix.
\<close>

definition invert :: "matrix4 \<Rightarrow> matrix4" where
  "invert m =
     (if det m = 0 then zero4
      else let detInv = 1 / det m in
        \<lparr>n11 = t11 m * detInv,
         n12 = t12 m * detInv,
         n13 = t13 m * detInv,
         n14 = t14 m * detInv,
         n21 = (n24 m * n33 m * n41 m - n23 m * n34 m * n41 m - n24 m * n31 m * n43 m
              + n21 m * n34 m * n43 m + n23 m * n31 m * n44 m - n21 m * n33 m * n44 m) * detInv,
         n22 = (n13 m * n34 m * n41 m - n14 m * n33 m * n41 m + n14 m * n31 m * n43 m
              - n11 m * n34 m * n43 m - n13 m * n31 m * n44 m + n11 m * n33 m * n44 m) * detInv,
         n23 = (n14 m * n23 m * n41 m - n13 m * n24 m * n41 m - n14 m * n21 m * n43 m
              + n11 m * n24 m * n43 m + n13 m * n21 m * n44 m - n11 m * n23 m * n44 m) * detInv,
         n24 = (n13 m * n24 m * n31 m - n14 m * n23 m * n31 m + n14 m * n21 m * n33 m
              - n11 m * n24 m * n33 m - n13 m * n21 m * n34 m + n11 m * n23 m * n34 m) * detInv,
         n31 = (n22 m * n34 m * n41 m - n24 m * n32 m * n41 m + n24 m * n31 m * n42 m
              - n21 m * n34 m * n42 m - n22 m * n31 m * n44 m + n21 m * n32 m * n44 m) * detInv,
         n32 = (n14 m * n32 m * n41 m - n12 m * n34 m * n41 m - n14 m * n31 m * n42 m
              + n11 m * n34 m * n42 m + n12 m * n31 m * n44 m - n11 m * n32 m * n44 m) * detInv,
         n33 = (n12 m * n24 m * n41 m - n14 m * n22 m * n41 m + n14 m * n21 m * n42 m
              - n11 m * n24 m * n42 m - n12 m * n21 m * n44 m + n11 m * n22 m * n44 m) * detInv,
         n34 = (n14 m * n22 m * n31 m - n12 m * n24 m * n31 m - n14 m * n21 m * n32 m
              + n11 m * n24 m * n32 m + n12 m * n21 m * n34 m - n11 m * n22 m * n34 m) * detInv,
         n41 = (n23 m * n32 m * n41 m - n22 m * n33 m * n41 m - n23 m * n31 m * n42 m
              + n21 m * n33 m * n42 m + n22 m * n31 m * n43 m - n21 m * n32 m * n43 m) * detInv,
         n42 = (n12 m * n33 m * n41 m - n13 m * n32 m * n41 m + n13 m * n31 m * n42 m
              - n11 m * n33 m * n42 m - n12 m * n31 m * n43 m + n11 m * n32 m * n43 m) * detInv,
         n43 = (n13 m * n22 m * n41 m - n12 m * n23 m * n41 m - n13 m * n21 m * n42 m
              + n11 m * n23 m * n42 m + n12 m * n21 m * n43 m - n11 m * n22 m * n43 m) * detInv,
         n44 = (n12 m * n23 m * n31 m - n13 m * n22 m * n31 m + n13 m * n21 m * n32 m
              - n11 m * n23 m * n32 m - n12 m * n21 m * n33 m + n11 m * n22 m * n33 m) * detInv\<rparr>)"

text \<open>
  \<open>Vector3.applyMatrix4(m)\<close>: the point is multiplied by the matrix and divided by
  the homogeneous coordinate, \<open>w = 1 / (n41 x + n42 y + n43 z + n44)\<close>. With a zero
  divisor \<open>w\<close> is an infinity and every component is an infinity or NaN.
\<close>

definition applyMatrix4 :: "vec3 \<Rightarrow> matrix4 \<Rightarrow> vec3 option" where
  "applyMatrix4 v m =
     (let d = n41 m * vx v + n42 m * vy v + n43 m * vz v + n44 m in
      if d = 0 then None
      else let w = 1 / d in
        Some (Vector3 ((n11 m * vx v + n12 m * vy v + n13 m * vz v + n14 m) * w)
                      ((n21 m * vx v + n22 m * vy v + n23 m * vz v + n24 m) * w)
                      ((n31 m * vx v + n32 m * vy v + n33 m * vz v + n34 m) * w)))"

text \<open>
  \<open>Matrix4.makeRotationFromEuler\<close> for the Euler order XYZ, the default: the
  rotation matrix of the angles \<open>x\<close>, \<open>y\<close>, \<open>z\<close>. The main group keeps its position
  at the origin and its scale at one and is a child of the scene, and only its
  \<open>rotation\<close> is written, so that its world matrix is such a matrix.
\<close>

definition makeRotationFromEuler :: "real \<Rightarrow> real \<Rightarrow> real \<Rightarrow> matrix4" where
  "makeRotationFromEuler x y z =
     (let a = cos x; b = sin x; c = cos y; d = sin y; e = cos z; f = sin z;
          ae = a * e; af = a * f; be = b * e; bf = b * f
      in \<lparr>n11 = c * e, n12 = - c * f, n13 = d, n14 = 0,
          n21 = af + be * d, n22 = ae - bf * d, n23 = - b * c, n24 = 0,
          n31 = bf - ae * d, n32 = be + af * d, n33 = a * c, n34 = 0,
          n41 = 0, n42 = 0, n43 = 0, n44 = 1\<rparr>)"

section \<open>Configuration and particles\<close>

text \<open>The fields of \<open>CONFIG\<close> that the particle code reads.\<close>

definition treeHeight :: real where
  "treeHeight = 24"

definition treeRadius :: real where
  "treeRadius = 8"

definition camera_z :: real where
  "camera_z = 50"

datatype AppMode = TREE | SCATTER | FOCUS

text \<open>
  A \<open>THREE.Object3D\<close> is known by its identity: \<open>===\<close> on objects compares
  references.
\<close>

type_synonym object3d = nat

text \<open>
  \<open>class Particle\<close>. The fields \<open>type\<close> and \<open>id\<close> are \<open>ptype\<close> and \<open>pid\<close>
  here. \<open>mesh\<close> is the identity of the renderable; \<open>mesh_position\<close>,
  \<open>mesh_rotation\<close> (Euler angles) and \<open>mesh_scale\<close> are its
  \<open>mesh.position\<close>, \<open>mesh.rotation\<close> and \<open>mesh.scale\<close>. A position or rotation
  with a component that is not a finite number is \<open>None\<close>.
\<close>

record particle =
  mesh :: object3d
  ptype :: string
  isDust :: bool
  posTree :: vec3
  posScatter :: vec3
  baseScale :: real
  spinSpeed :: vec3
  pid :: real
  mesh_position :: "vec3 option"
  mesh_rotation :: "vec3 option"
  mesh_scale :: vec3

text \<open>
  \<open>Particle.calculatePositions\<close>. The six arguments \<open>u1 .. u6\<close> are the values of
  the six calls of \<open>Math.random()\<close>, in the order the source makes them.
\<close>

definition calculatePositions ::
  "real \<Rightarrow> real \<Rightarrow> real \<Rightarrow> real \<Rightarrow> real \<Rightarrow> real \<Rightarrow> particle \<Rightarrow> particle" where
  "calculatePositions u1 u2 u3 u4 u5 u6 p =
     (let h = treeHeight;
          halfH = h / 2;
          t = u1 powr 0.8;
          y = t * h - halfH;
          rMax0 = treeRadius * (1.0 - t);
          rMax = (if rMax0 < 0.5 then 0.5 else rMax0);
          angle = t * 50 * pi + u2 * pi;
          r = rMax * (0.8 + u3 * 0.4);
          rScatter = (if isDust p then 15 + u4 * 25 else 10 + u4 * 15);
          theta = u5 * pi * 2;
          phi = arccos (2 * u6 - 1)
      in p\<lparr>posTree := Vector3 (cos angle * r) y (sin angle * r),
             posScatter := Vector3 (rScatter * sin phi * cos theta)
                                   (rScatter * sin phi * sin theta)
                                   (rScatter * cos phi)\<rparr>)"

text \<open>
  The two camera points of \<open>Particle.update\<close>, named after the source's locals:
  \<open>cameraPosLocal\<close> is the position target of the focused particle,
  \<open>cameraLocal\<close> is the argument of \<open>lookAt\<close>.
\<close>

definition cameraPosLocal :: "matrix4 \<Rightarrow> vec3 option" where
  "cameraPosLocal mainGroupMatrix =
     (let invMatrix = invert mainGroupMatrix in applyMatrix4 (Vector3 0 0 38) invMatrix)"

definition cameraLocal :: "matrix4 \<Rightarrow> vec3 option" where
  "cameraLocal mainGroupMatrix =
     (let invMatrix = invert mainGroupMatrix in applyMatrix4 (Vector3 0 0 camera_z) invMatrix)"

text \<open>Component-wise update of a rotation that may hold a non-finite component.\<close>

definition spin :: "vec3 option \<Rightarrow> vec3 \<Rightarrow> real \<Rightarrow> vec3 option" where
  "spin rot speed dt =
     map_option (\<lambda>r. Vector3 (vx r + vx speed * dt) (vy r + vy speed * dt) (vz r + vz speed * dt)) rot"

definition settle :: "vec3 option \<Rightarrow> real \<Rightarrow> vec3 option" where
  "settle rot dt =
     map_option (\<lambda>r. Vector3 (lerp (vx r) 0 dt) (vy r + 0.5 * dt) (lerp (vz r) 0 dt)) rot"

text \<open>
  \<open>Particle.update\<close>. \<open>Object3D.lookAt\<close> is a parameter: the library computes the
  new orientation from the object's position (after the interpolation above it), the
  point to look at, the object's \<open>up\<close> vector and the transforms of its parents, and
  not from the orientation the object had before; \<open>lookAt pos target\<close> is the
  resulting \<open>mesh.rotation\<close>.
\<close>

definition update ::
  "(vec3 option \<Rightarrow> vec3 option \<Rightarrow> vec3 option) \<Rightarrow>
   real \<Rightarrow> AppMode \<Rightarrow> real \<Rightarrow> object3d option \<Rightarrow> matrix4 \<Rightarrow> particle \<Rightarrow> particle" where
  "update lookAt dt mode time focusTarget mainGroupMatrix p =
     (let target =
            (if mode = SCATTER then Some (posScatter p)
             else if mode = FOCUS then
               (if Some (mesh p) = focusTarget then cameraPosLocal mainGroupMatrix
                else Some (posScatter p))
             else Some (posTree p));
          isTarget = (mode = FOCUS \<and> Some (mesh p) = focusTarget);
          lerpSpeed = (if isTarget then 3.5 else 1.8);
          pos = lerp_nf (mesh_position p) target (lerpSpeed * dt);
          rot =
            (if mode = SCATTER \<or> (mode = FOCUS \<and> \<not> isTarget) then spin (mesh_rotation p) (spinSpeed p) dt
             else if mode = TREE then settle (mesh_rotation p) dt
             else if isTarget then lookAt pos (cameraLocal mainGroupMatrix)
             else mesh_rotation p);
          s = (if isDust p then
                 (let twinkle = baseScale p * (0.8 + 0.5 * sin (time * 3 + pid p * 10))
                  in if mode = TREE then 0 else twinkle)
               else if mode = SCATTER \<and> ptype p = ''PHOTO'' then baseScale p * 2.0
               else if mode = FOCUS then (if isTarget then 6.0 else baseScale p * 0.5)
               else baseScale p)
      in p\<lparr>mesh_position := pos,
             mesh_rotation := rot,
             mesh_scale := lerp_vec (mesh_scale p) (Vector3 s s s) (3.0 * dt)\<rparr>)"

section \<open>Mode state machine\<close>

text \<open>A hand landmark of the detector (its \<open>x\<close> and \<open>y\<close>; \<open>z\<close> is not read).\<close>

datatype landmark = Landmark (lm_x: real) (lm_y: real)

record hand_signal =
  detected :: bool
  hand_x :: real
  hand_y :: real

text \<open>
  The refs of the \<open>Scene3D\<close> component that the gesture classifier and the click
  handler read and write.
\<close>

record app_state =
  modeRef :: AppMode
  focusTargetRef :: "object3d option"
  particlesRef :: "particle list"
  photoGroupRef :: "object3d option"
  handRef :: hand_signal

datatype error = TypeError

text \<open>
  A handler either returns (\<open>Inr\<close>, the refs after it) or throws (\<open>Inl\<close>, the error
  and the refs as they are when it is thrown: writes made before are kept).
\<close>

type_synonym outcome = "(error \<times> app_state) + app_state"

fun state_after :: "outcome \<Rightarrow> app_state" where
  "state_after (Inl (e, s)) = s"
| "state_after (Inr s) = s"

definition FIST_THRESHOLD :: real where
  "FIST_THRESHOLD = 0.25"

definition OPEN_THRESHOLD :: real where
  "OPEN_THRESHOLD = 0.45"

definition PINCH_THRESHOLD :: real where
  "PINCH_THRESHOLD = 0.08"

text \<open>The two metrics of \<open>processGestures\<close>, for a hand of at least 21 landmarks.\<close>

definition pinchDist :: "landmark list \<Rightarrow> real" where
  "pinchDist lm =
     (let thumbTip = lm ! 4; indexTip = lm ! 8
      in hypot (lm_x thumbTip - lm_x indexTip) (lm_y thumbTip - lm_y indexTip))"

definition avgDistToWrist :: "landmark list \<Rightarrow> real" where
  "avgDistToWrist lm =
     (let wrist = lm ! 0;
          tips = [lm ! 8, lm ! 12, lm ! 16, lm ! 20]
      in foldl (\<lambda>acc t. acc + hypot (lm_x t - lm_x wrist) (lm_y t - lm_y wrist)) 0 tips / 4)"

text \<open>
  \<open>processGestures\<close>. \<open>result\<close> is \<open>result.landmarks\<close> (\<open>None\<close> when absent),
  \<open>rnd\<close> the value of the call of \<open>Math.random()\<close>. Reading \<open>.x\<close> of a landmark
  that the list does not have, or \<open>.mesh\<close> of a photo that the list does not have,
  throws a TypeError.
\<close>

definition processGestures :: "landmark list list option \<Rightarrow> real \<Rightarrow> app_state \<Rightarrow> outcome" where
  "processGestures result rnd s =
     (case result of
        None \<Rightarrow> Inr (s\<lparr>handRef := (handRef s)\<lparr>detected := False\<rparr>\<rparr>)
      | Some [] \<Rightarrow> Inr (s\<lparr>handRef := (handRef s)\<lparr>detected := False\<rparr>\<rparr>)
      | Some (lm # rest) \<Rightarrow>
          (let s1 = s\<lparr>handRef := (handRef s)\<lparr>detected := True\<rparr>\<rparr> in
           if length lm \<le> 9 then Inl (TypeError, s1)
           else
            (let s2 = s1\<lparr>handRef := (handRef s1)\<lparr>hand_x := (1 - lm_x (lm ! 9) - 0.5) * 2,
                                                   hand_y := (1 - lm_y (lm ! 9) - 0.5) * 2\<rparr>\<rparr> in
             if length lm \<le> 20 then Inl (TypeError, s2)
             else if avgDistToWrist lm < FIST_THRESHOLD then
               (if modeRef s2 \<noteq> TREE then Inr (s2\<lparr>modeRef := TREE, focusTargetRef := None\<rparr>)
                else Inr s2)
             else if pinchDist lm < PINCH_THRESHOLD then
               (if modeRef s2 \<noteq> FOCUS then
                  (let s3 = s2\<lparr>modeRef := FOCUS\<rparr>;
                       photos = filter (\<lambda>p. ptype p = ''PHOTO'') (particlesRef s3) in
                   if length photos > 0 then
                     (let i = \<lfloor>rnd * real (length photos)\<rfloor> in
                      if 0 \<le> i \<and> i < int (length photos)
                      then Inr (s3\<lparr>focusTargetRef := Some (mesh (photos ! nat i))\<rparr>)
                      else Inl (TypeError, s3))
                   else Inr s3)
                else Inr s2)
             else if avgDistToWrist lm > OPEN_THRESHOLD then
               (let s3 = (if modeRef s2 \<noteq> SCATTER \<and> modeRef s2 \<noteq> FOCUS
                          then s2\<lparr>modeRef := SCATTER, focusTargetRef := None\<rparr> else s2);
                    s4 = (if modeRef s3 = FOCUS
                          then s3\<lparr>modeRef := SCATTER, focusTargetRef := None\<rparr> else s3)
                in Inr s4)
             else Inr s2)))"

text \<open>
  The parent walk of \<open>onClick\<close>:
  \<open>while (targetGroup && targetGroup.parent !== photoGroupRef.current)
     targetGroup = targetGroup.parent\<close>.
  \<open>parent\<close> is the scene graph (\<open>None\<close> for an object without parent). On a graph
  with a cycle the loop does not end, which is the value \<open>None\<close>.
\<close>

partial_function (option) findTargetGroup ::
  "(object3d \<Rightarrow> object3d option) \<Rightarrow> object3d option \<Rightarrow> object3d option \<Rightarrow> object3d option option" where
  "findTargetGroup parent photoGroup targetGroup =
     (case targetGroup of
        None \<Rightarrow> Some None
      | Some g \<Rightarrow>
          if parent g \<noteq> photoGroup then findTargetGroup parent photoGroup (parent g)
          else Some (Some g))"

text \<open>The mode cycle of a click that selects no photo.\<close>

definition cycleModes :: "app_state \<Rightarrow> app_state" where
  "cycleModes s =
     (if modeRef s = FOCUS then s\<lparr>modeRef := SCATTER, focusTargetRef := None\<rparr>
      else if modeRef s = TREE then s\<lparr>modeRef := SCATTER\<rparr>
      else s\<lparr>modeRef := TREE\<rparr>)"

text \<open>
  \<open>onClick\<close>. \<open>intersects\<close> is the list of objects that
  \<open>raycaster.intersectObjects(photoMeshes, true)\<close> returns for the click, nearest
  first. The result is \<open>None\<close> when the parent walk does not end.
\<close>

definition onClick ::
  "(object3d \<Rightarrow> object3d option) \<Rightarrow> object3d list \<Rightarrow> app_state \<Rightarrow> app_state option" where
  "onClick parent intersects s =
     (case intersects of
        [] \<Rightarrow> Some (cycleModes s)
      | obj # others \<Rightarrow>
          (case findTargetGroup parent (photoGroupRef s) (Some obj) of
             None \<Rightarrow> None
           | Some None \<Rightarrow> Some (cycleModes s)
           | Some (Some targetGroup) \<Rightarrow>
               Some (s\<lparr>focusTargetRef := Some targetGroup, modeRef := FOCUS\<rparr>)))"

text \<open>
  The states of the mode machine: the initial refs (mode TREE, no focus target), and
  every state that a gesture classification (returning or throwing) or a click
  produces from one of them.
\<close>

definition initial :: "particle list \<Rightarrow> object3d option \<Rightarrow> hand_signal \<Rightarrow> app_state" where
  "initial ps pg h =
     \<lparr>modeRef = TREE, focusTargetRef = None, particlesRef = ps, photoGroupRef = pg, handRef = h\<rparr>"

inductive reachable :: "app_state \<Rightarrow> bool" where
  reach_initial: "reachable (initial ps pg h)"
| reach_gesture: "reachable s \<Longrightarrow> reachable (state_after (processGestures result rnd s))"
| reach_click: "reachable s \<Longrightarrow> onClick parent intersects s = Some s' \<Longrightarrow> reachable s'"

section \<open>Example data\<close>

text \<open>
  Three hands of 21 landmarks: a fist (every landmark on the wrist), a pinch (thumb tip
  on the index tip, finger tips 0.3 from the wrist) and an open hand (finger tips 0.5
  from the wrist, thumb tip 0.5 from the index tip).
\<close>

definition fist_hand :: "landmark list" where
  "fist_hand = replicate 21 (Landmark 0 0)"

definition pinch_hand :: "landmark list" where
  "pinch_hand = (replicate 21 (Landmark 0.3 0))[0 := Landmark 0 0]"

definition open_hand :: "landmark list" where
  "open_hand = (replicate 21 (Landmark 0.5 0))[0 := Landmark 0 0, 4 := Landmark 0 0]"

text \<open>
  A framed photo as \<open>addPhotoToScene\<close> builds it: a group \<open>g\<close> of scale 0.8 and
  type PHOTO. In the example scene the main group is object 2, the photo group
  object 3, the photo's group object 7, its frame and picture meshes objects 8 and 9.
\<close>

definition photo_particle :: "object3d \<Rightarrow> particle" where
  "photo_particle g =
     \<lparr>mesh = g, ptype = ''PHOTO'', isDust = False,
      posTree = Vector3 0 0 0, posScatter = Vector3 10 0 0, baseScale = 0.8,
      spinSpeed = Vector3 0 0 0, pid = 0,
      mesh_position = Some (Vector3 10 0 0), mesh_rotation = Some (Vector3 0 0 0),
      mesh_scale = Vector3 0.8 0.8 0.8\<rparr>"

definition no_hand :: hand_signal where
  "no_hand = \<lparr>detected = False, hand_x = 0, hand_y = 0\<rparr>"

definition scene_parent :: "object3d \<Rightarrow> object3d option" where
  "scene_parent obj = (if obj = 8 \<or> obj = 9 then Some 7 else if obj = 7 then Some 3 else if obj = 3 then Some 2 else None)"

definition tree_state :: app_state where
  "tree_state = initial [photo_particle 7] (Some 3) no_hand"

definition focused_state :: app_state where
  "focused_state = (initial [photo_particle 7] (Some 3) no_hand)\<lparr>modeRef := FOCUS, focusTargetRef := Some 7\<rparr>"

definition dust_particle :: "object3d \<Rightarrow> particle" where
  "dust_particle g =
     \<lparr>mesh = g, ptype = ''DUST'', isDust = True,
      posTree = Vector3 0 0 0, posScatter = Vector3 15 0 0, baseScale = 1,
      spinSpeed = Vector3 0 0 0, pid = 0,
      mesh_position = Some (Vector3 0 0 0), mesh_rotation = Some (Vector3 0 0 0),
      mesh_scale = Vector3 1 1 1\<rparr>"

section \<open>Auxiliary notions\<close>

text \<open>
  \<open>is_path parent [a, b, c, ...]\<close>: each object of the list is the parent of the
  one before it.
\<close>

fun is_path :: "(object3d \<Rightarrow> object3d option) \<Rightarrow> object3d list \<Rightarrow> bool" where
  "is_path parent [] = True"
| "is_path parent [a] = True"
| "is_path parent (a # b # rest) = (parent a = Some b \<and> is_path parent (b # rest))"

text \<open>The focus target is set only in mode FOCUS.\<close>

definition focus_inv :: "app_state \<Rightarrow> bool" where
  "focus_inv s = (focusTargetRef s = None \<or> modeRef s = FOCUS)"

text \<open>\<open>Vector3.length()\<close>, the Euclidean norm.\<close>

definition length_vec :: "vec3 \<Rightarrow> real" where
  "length_vec v = sqrt (vx v * vx v + vy v * vy v + vz v * vz v)"

text \<open>
  A matrix whose last row is \<open>(0, 0, 0, 1)\<close>, as every matrix composed from a
  position, a rotation and a scale.
\<close>

definition affine :: "matrix4 \<Rightarrow> bool" where
  "affine m = (n41 m = 0 \<and> n42 m = 0 \<and> n43 m = 0 \<and> n44 m = 1)"

section \<open>The gesture classifier\<close>

lemmas thresholds = FIST_THRESHOLD_def OPEN_THRESHOLD_def PINCH_THRESHOLD_def

lemma hypot_zero: "hypot a 0 = \<bar>a\<bar>"
  by (simp add: hypot_def)

lemma fist_hand_metrics:
  "length fist_hand = 21" "avgDistToWrist fist_hand = 0" "pinchDist fist_hand = 0"
  by (simp_all add: fist_hand_def avgDistToWrist_def pinchDist_def hypot_zero)

lemma pinch_hand_metrics:
  "length pinch_hand = 21" "avgDistToWrist pinch_hand = 0.3" "pinchDist pinch_hand = 0"
  by (simp_all add: pinch_hand_def avgDistToWrist_def pinchDist_def hypot_zero)

lemma open_hand_metrics:
  "length open_hand = 21" "avgDistToWrist open_hand = 0.5" "pinchDist open_hand = 0.5"
  by (simp_all add: open_hand_def avgDistToWrist_def pinchDist_def hypot_zero)

lemma floor_index:
  fixes u :: real and n :: nat
  assumes "0 \<le> u" "u < 1" "0 < n"
  shows "0 \<le> \<lfloor>u * real n\<rfloor>" "\<lfloor>u * real n\<rfloor> < int n"
proof -
  show "0 \<le> \<lfloor>u * real n\<rfloor>" using assms by simp
  have "u * real n < real n" using assms by simp
  then show "\<lfloor>u * real n\<rfloor> < int n" by (simp add: floor_less_iff)
qed

lemma floor_index_uniform:
  fixes u :: real and n :: nat
  assumes "0 \<le> u" "0 < n"
  shows "nat \<lfloor>u * real n\<rfloor> = i \<longleftrightarrow> real i / real n \<le> u \<and> u < real (i + 1) / real n"
proof -
  have nn: "0 \<le> \<lfloor>u * real n\<rfloor>" using assms by simp
  have "nat \<lfloor>u * real n\<rfloor> = i \<longleftrightarrow> \<lfloor>u * real n\<rfloor> = int i"
    using nn by linarith
  also have "\<dots> \<longleftrightarrow> real i \<le> u * real n \<and> u * real n < real i + 1"
    by (simp add: floor_eq_iff)
  also have "\<dots> \<longleftrightarrow> real i / real n \<le> u \<and> u < real (i + 1) / real n"
    using assms by (simp add: field_simps)
  finally show ?thesis .
qed

lemma filter_nth_props:
  assumes "k < length (filter P xs)"
  shows "P (filter P xs ! k)" "filter P xs ! k \<in> set xs"
proof -
  have "filter P xs ! k \<in> set (filter P xs)" using assms by (rule nth_mem)
  then show "P (filter P xs ! k)" "filter P xs ! k \<in> set xs" by simp_all
qed

subsection \<open>The focus invariant\<close>

lemma cycleModes_inv: "focus_inv s \<Longrightarrow> focus_inv (cycleModes s)"
  by (auto simp: focus_inv_def cycleModes_def)

lemma onClick_inv:
  assumes "focus_inv s" and "onClick parent intersects s = Some s'"
  shows "focus_inv s'"
proof (cases intersects)
  case Nil
  with assms show ?thesis by (auto simp: onClick_def cycleModes_inv)
next
  case (Cons obj others)
  show ?thesis
  proof (cases "findTargetGroup parent (photoGroupRef s) (Some obj)")
    case None
    with Cons assms show ?thesis by (simp add: onClick_def)
  next
    case (Some found)
    show ?thesis
    proof (cases found)
      case None
      with Some Cons assms have "s' = cycleModes s" by (simp add: onClick_def)
      with assms show ?thesis by (simp add: cycleModes_inv)
    next
      case (Some targetGroup)
      with \<open>findTargetGroup parent (photoGroupRef s) (Some obj) = Some found\<close> Cons assms
      have "s' = s\<lparr>focusTargetRef := Some targetGroup, modeRef := FOCUS\<rparr>"
        by (simp add: onClick_def)
      then show ?thesis by (simp add: focus_inv_def)
    qed
  qed
qed

lemma processGestures_inv:
  assumes "focus_inv s"
  shows "focus_inv (state_after (processGestures result rnd s))"
proof (cases result)
  case None
  with assms show ?thesis by (simp add: processGestures_def focus_inv_def)
next
  case (Some hands)
  show ?thesis
  proof (cases hands)
    case Nil
    with Some assms show ?thesis by (simp add: processGestures_def focus_inv_def)
  next
    case (Cons lm rest)
    with Some assms show ?thesis
      by (auto simp: processGestures_def focus_inv_def Let_def)
  qed
qed

lemma reachable_focus_inv: "reachable s \<Longrightarrow> focus_inv s"
proof (induction rule: reachable.induct)
  case (reach_initial ps pg h)
  show ?case by (simp add: focus_inv_def initial_def)
next
  case (reach_gesture s result rnd)
  then show ?case by (simp add: processGestures_inv)
next
  case (reach_click s parent intersects s')
  then show ?case by (blast intro: onClick_inv)
qed

lemma distinct_count_le_one:
  "distinct (map f xs) \<Longrightarrow> length (filter (\<lambda>p. f p = a) xs) \<le> 1"
proof (induction xs)
  case Nil
  show ?case by simp
next
  case (Cons x xs)
  show ?case
  proof (cases "f x = a")
    case True
    with Cons.prems have "a \<notin> f ` set xs" by simp
    then have "\<forall>p\<in>set xs. f p \<noteq> a" by blast
    then have "filter (\<lambda>p. f p = a) xs = []" by (simp add: filter_empty_conv)
    with True show ?thesis by simp
  next
    case False
    with Cons show ?thesis by simp
  qed
qed

lemma findTargetGroup_path:
  assumes "is_path parent (path @ [g])"
    and "\<forall>c\<in>set path. parent c \<noteq> pg"
    and "parent g = pg"
  shows "findTargetGroup parent pg (Some (hd (path @ [g]))) = Some (Some g)"
  using assms
proof (induction path)
  case Nil
  then show ?case by (subst findTargetGroup.simps) simp
next
  case (Cons c path)
  have step: "parent c = Some (hd (path @ [g]))"
    using Cons.prems(1) by (cases path) simp_all
  have rest: "is_path parent (path @ [g])"
    using Cons.prems(1) by (cases path) simp_all
  have "findTargetGroup parent pg (Some c) = findTargetGroup parent pg (parent c)"
    using Cons.prems(2) by (subst findTargetGroup.simps) simp
  also have "\<dots> = Some (Some g)"
    using Cons.IH [OF rest] Cons.prems(2,3) step by simp
  finally show ?case by simp
qed

lemma scene_walk: "findTargetGroup scene_parent (Some 3) (Some 8) = Some (Some 7)"
proof -
  have "findTargetGroup scene_parent (Some 3) (Some 7) = Some (Some 7)"
    by (subst findTargetGroup.simps) (simp add: scene_parent_def)
  then show ?thesis
    by (subst findTargetGroup.simps) (simp add: scene_parent_def)
qed

lemma tree_state_reachable: "reachable tree_state"
  unfolding tree_state_def by (rule reach_initial)

lemma focused_state_reachable: "reachable focused_state"
proof -
  have "reachable tree_state"
    unfolding tree_state_def by (rule reach_initial)
  moreover have "onClick scene_parent [8] tree_state = Some focused_state"
    by (simp add: onClick_def tree_state_def focused_state_def initial_def scene_walk)
  ultimately show ?thesis by (rule reach_click)
qed

subsection \<open>Open hand\<close>

text \<open>
  Claim C1. A detection whose openness is not below the fist threshold, whose pinch
  distance is not below the pinch threshold and whose openness is above
  \<open>OPEN_THRESHOLD\<close> leaves the classifier in mode SCATTER whatever the mode before;
  coming from FOCUS or from TREE the focus target is cleared (coming from SCATTER
  nothing is written).
\<close>

theorem open_hand_scatters:
  assumes "21 \<le> length lm"
    and "\<not> avgDistToWrist lm < FIST_THRESHOLD"
    and "\<not> pinchDist lm < PINCH_THRESHOLD"
    and "avgDistToWrist lm > OPEN_THRESHOLD"
  shows "\<exists>s'. processGestures (Some (lm # rest)) rnd s = Inr s'
           \<and> modeRef s' = SCATTER
           \<and> (modeRef s = FOCUS \<or> modeRef s = TREE \<longrightarrow> focusTargetRef s' = None)
           \<and> (modeRef s = SCATTER \<longrightarrow> focusTargetRef s' = focusTargetRef s)"
  using assms by (cases "modeRef s") (simp_all add: processGestures_def Let_def)

theorem open_hand_scatters_witness:
  "21 \<le> length open_hand
   \<and> \<not> avgDistToWrist open_hand < FIST_THRESHOLD
   \<and> \<not> pinchDist open_hand < PINCH_THRESHOLD
   \<and> avgDistToWrist open_hand > OPEN_THRESHOLD
   \<and> (\<exists>s'. processGestures (Some [open_hand]) 0 focused_state = Inr s'
          \<and> modeRef s' = SCATTER \<and> focusTargetRef s' = None)"
  using open_hand_scatters [of open_hand "[]" 0 focused_state]
  by (auto simp: open_hand_metrics thresholds focused_state_def)

subsection \<open>Fist\<close>

text \<open>
  Claim C2. In every reachable state, whatever the mode and the focus target, a
  detection whose openness is below \<open>FIST_THRESHOLD\<close> leaves the classifier in
  mode TREE with no focus target, whatever the pinch distance: the branch comes
  before the pinch and the open-hand branches.
\<close>

theorem fist_forces_tree:
  assumes "21 \<le> length lm" and "avgDistToWrist lm < FIST_THRESHOLD" and "reachable s"
  shows "\<exists>s'. processGestures (Some (lm # rest)) rnd s = Inr s'
           \<and> modeRef s' = TREE \<and> focusTargetRef s' = None"
proof -
  have "focus_inv s" using assms(3) by (rule reachable_focus_inv)
  then have f: "modeRef s = TREE \<longrightarrow> focusTargetRef s = None"
    by (auto simp: focus_inv_def)
  show ?thesis
  proof (cases "modeRef s = TREE")
    case True
    with f assms(1,2) show ?thesis by (simp add: processGestures_def Let_def)
  next
    case False
    with assms(1,2) show ?thesis by (simp add: processGestures_def Let_def)
  qed
qed

theorem fist_forces_tree_witness:
  "21 \<le> length fist_hand \<and> avgDistToWrist fist_hand < FIST_THRESHOLD
   \<and> pinchDist fist_hand < PINCH_THRESHOLD
   \<and> reachable focused_state \<and> focusTargetRef focused_state = Some 7
   \<and> (\<exists>s'. processGestures (Some [fist_hand]) 0 focused_state = Inr s'
          \<and> modeRef s' = TREE \<and> focusTargetRef s' = None)
   \<and> reachable tree_state
   \<and> (\<exists>s'. processGestures (Some [fist_hand]) 0 tree_state = Inr s'
          \<and> modeRef s' = TREE \<and> focusTargetRef s' = None)"
proof -
  have h: "21 \<le> length fist_hand" "avgDistToWrist fist_hand < FIST_THRESHOLD"
    "pinchDist fist_hand < PINCH_THRESHOLD"
    by (simp_all add: fist_hand_metrics thresholds)
  have f: "focusTargetRef focused_state = Some 7"
    by (simp add: focused_state_def)
  show ?thesis
    by (intro conjI h f focused_state_reachable tree_state_reachable
        fist_forces_tree [OF h(1,2) focused_state_reachable]
        fist_forces_tree [OF h(1,2) tree_state_reachable])
qed

subsection \<open>Pinch\<close>

text \<open>
  Claim C3. A detection whose openness is not below the fist threshold and whose pinch
  distance is below \<open>PINCH_THRESHOLD\<close>: in mode FOCUS nothing of the mode machine
  changes; otherwise the mode becomes FOCUS, the focus target is unchanged when there
  is no particle of type PHOTO, and otherwise it becomes the mesh of the photo of index
  \<open>k = floor (rnd * n)\<close> among the \<open>n\<close> photos. For a draw \<open>rnd\<close> in \<open>[0, 1)\<close>
  the index \<open>i\<close> is chosen exactly when \<open>rnd\<close> lies in \<open>[i / n, (i + 1) / n)\<close>:
  every photo has an interval of the same length \<open>1 / n\<close>.
\<close>

theorem pinch_enters_focus:
  assumes "21 \<le> length lm"
    and "\<not> avgDistToWrist lm < FIST_THRESHOLD"
    and "pinchDist lm < PINCH_THRESHOLD"
  shows "(modeRef s = FOCUS \<longrightarrow>
            (\<exists>s'. processGestures (Some (lm # rest)) rnd s = Inr s'
               \<and> modeRef s' = FOCUS \<and> focusTargetRef s' = focusTargetRef s
               \<and> particlesRef s' = particlesRef s))
       \<and> (modeRef s \<noteq> FOCUS \<and> filter (\<lambda>p. ptype p = ''PHOTO'') (particlesRef s) = [] \<longrightarrow>
            (\<exists>s'. processGestures (Some (lm # rest)) rnd s = Inr s'
               \<and> modeRef s' = FOCUS \<and> focusTargetRef s' = focusTargetRef s))
       \<and> (modeRef s \<noteq> FOCUS \<and> filter (\<lambda>p. ptype p = ''PHOTO'') (particlesRef s) \<noteq> []
            \<and> 0 \<le> rnd \<and> rnd < 1 \<longrightarrow>
            (\<exists>s' k. processGestures (Some (lm # rest)) rnd s = Inr s'
               \<and> modeRef s' = FOCUS
               \<and> k < length (filter (\<lambda>p. ptype p = ''PHOTO'') (particlesRef s))
               \<and> focusTargetRef s' = Some (mesh (filter (\<lambda>p. ptype p = ''PHOTO'') (particlesRef s) ! k))
               \<and> ptype (filter (\<lambda>p. ptype p = ''PHOTO'') (particlesRef s) ! k) = ''PHOTO''
               \<and> filter (\<lambda>p. ptype p = ''PHOTO'') (particlesRef s) ! k \<in> set (particlesRef s)
               \<and> (\<forall>i. k = i \<longleftrightarrow>
                     real i / real (length (filter (\<lambda>p. ptype p = ''PHOTO'') (particlesRef s))) \<le> rnd
                   \<and> rnd < real (i + 1) / real (length (filter (\<lambda>p. ptype p = ''PHOTO'') (particlesRef s))))))"
proof (intro conjI impI)
  assume "modeRef s = FOCUS"
  then show "\<exists>s'. processGestures (Some (lm # rest)) rnd s = Inr s'
               \<and> modeRef s' = FOCUS \<and> focusTargetRef s' = focusTargetRef s
               \<and> particlesRef s' = particlesRef s"
    using assms by (simp add: processGestures_def Let_def)
next
  assume "modeRef s \<noteq> FOCUS \<and> filter (\<lambda>p. ptype p = ''PHOTO'') (particlesRef s) = []"
  then show "\<exists>s'. processGestures (Some (lm # rest)) rnd s = Inr s'
               \<and> modeRef s' = FOCUS \<and> focusTargetRef s' = focusTargetRef s"
    using assms by (simp add: processGestures_def Let_def)
next
  define photos where "photos = filter (\<lambda>p. ptype p = ''PHOTO'') (particlesRef s)"
  define k where "k = nat \<lfloor>rnd * real (length photos)\<rfloor>"
  assume a: "modeRef s \<noteq> FOCUS \<and> filter (\<lambda>p. ptype p = ''PHOTO'') (particlesRef s) \<noteq> []
            \<and> 0 \<le> rnd \<and> rnd < 1"
  then have n: "0 < length photos" and r: "0 \<le> rnd" "rnd < 1" and m: "modeRef s \<noteq> FOCUS"
    by (simp_all add: photos_def)
  have i: "0 \<le> \<lfloor>rnd * real (length photos)\<rfloor>" "\<lfloor>rnd * real (length photos)\<rfloor> < int (length photos)"
    using floor_index [OF r n] by simp_all
  then have k: "k < length photos" by (simp add: k_def nat_less_iff)
  have run: "processGestures (Some (lm # rest)) rnd s =
      Inr (s\<lparr>handRef := (handRef s)\<lparr>detected := True,
                                   hand_x := (1 - lm_x (lm ! 9) - 0.5) * 2,
                                   hand_y := (1 - lm_y (lm ! 9) - 0.5) * 2\<rparr>,
             modeRef := FOCUS, focusTargetRef := Some (mesh (photos ! k))\<rparr>)"
    using assms m n i by (simp add: processGestures_def Let_def photos_def [symmetric] k_def)
  have u: "\<forall>i. k = i \<longleftrightarrow> real i / real (length photos) \<le> rnd \<and> rnd < real (i + 1) / real (length photos)"
    unfolding k_def using floor_index_uniform [OF r(1) n] by blast
  have p: "ptype (photos ! k) = ''PHOTO''" "photos ! k \<in> set (particlesRef s)"
    using filter_nth_props [of k "\<lambda>p. ptype p = ''PHOTO''" "particlesRef s"] k
    by (simp_all add: photos_def)
  show "\<exists>s' k. processGestures (Some (lm # rest)) rnd s = Inr s'
               \<and> modeRef s' = FOCUS
               \<and> k < length (filter (\<lambda>p. ptype p = ''PHOTO'') (particlesRef s))
               \<and> focusTargetRef s' = Some (mesh (filter (\<lambda>p. ptype p = ''PHOTO'') (particlesRef s) ! k))
               \<and> ptype (filter (\<lambda>p. ptype p = ''PHOTO'') (particlesRef s) ! k) = ''PHOTO''
               \<and> filter (\<lambda>p. ptype p = ''PHOTO'') (particlesRef s) ! k \<in> set (particlesRef s)
               \<and> (\<forall>i. k = i \<longleftrightarrow>
                     real i / real (length (filter (\<lambda>p. ptype p = ''PHOTO'') (particlesRef s))) \<le> rnd
                   \<and> rnd < real (i + 1) / real (length (filter (\<lambda>p. ptype p = ''PHOTO'') (particlesRef s))))"
    unfolding photos_def [symmetric]
    using run k u p by (intro exI [of _ "s\<lparr>handRef := (handRef s)\<lparr>detected := True,
                                   hand_x := (1 - lm_x (lm ! 9) - 0.5) * 2,
                                   hand_y := (1 - lm_y (lm ! 9) - 0.5) * 2\<rparr>,
             modeRef := FOCUS, focusTargetRef := Some (mesh (photos ! k))\<rparr>"] exI [of _ k]) simp
qed

theorem pinch_enters_focus_witness:
  "21 \<le> length pinch_hand
   \<and> \<not> avgDistToWrist pinch_hand < FIST_THRESHOLD
   \<and> pinchDist pinch_hand < PINCH_THRESHOLD
   \<and> (\<exists>s'. processGestures (Some [pinch_hand]) (1/2) focused_state = Inr s'
          \<and> modeRef s' = FOCUS \<and> focusTargetRef s' = Some 7)
   \<and> (\<exists>s'. processGestures (Some [pinch_hand]) (1/2) (initial [] (Some 3) no_hand) = Inr s'
          \<and> modeRef s' = FOCUS \<and> focusTargetRef s' = None)
   \<and> (\<exists>s'. processGestures (Some [pinch_hand]) (1/2) tree_state = Inr s'
          \<and> modeRef s' = FOCUS \<and> focusTargetRef s' = Some 7)"
proof -
  have h: "21 \<le> length pinch_hand" "\<not> avgDistToWrist pinch_hand < FIST_THRESHOLD"
    "pinchDist pinch_hand < PINCH_THRESHOLD"
    by (simp_all add: pinch_hand_metrics thresholds)
  have a: "\<exists>s'. processGestures (Some [pinch_hand]) (1/2) focused_state = Inr s'
          \<and> modeRef s' = FOCUS \<and> focusTargetRef s' = Some 7"
    using pinch_enters_focus [OF h, of focused_state "[]" "1/2"]
    by (auto simp: focused_state_def initial_def)
  have b: "\<exists>s'. processGestures (Some [pinch_hand]) (1/2) (initial [] (Some 3) no_hand) = Inr s'
          \<and> modeRef s' = FOCUS \<and> focusTargetRef s' = None"
    using pinch_enters_focus [OF h, of "initial [] (Some 3) no_hand" "[]" "1/2"]
    by (auto simp: initial_def)
  have c: "\<exists>s'. processGestures (Some [pinch_hand]) (1/2) tree_state = Inr s'
          \<and> modeRef s' = FOCUS \<and> focusTargetRef s' = Some 7"
    using pinch_enters_focus [OF h, of tree_state "[]" "1/2"]
    by (auto simp: tree_state_def initial_def photo_particle_def)
  from h a b c show ?thesis by simp
qed

subsection \<open>Reachable states\<close>

text \<open>
  Claim C4. In every state reachable from the initial state by gesture
  classifications and clicks, a focus target is set only in mode FOCUS, and, the
  particles having pairwise different meshes, at most one particle has the focus
  target as its mesh.
\<close>

theorem focus_target_only_in_focus:
  assumes "reachable s"
  shows "(focusTargetRef s \<noteq> None \<longrightarrow> modeRef s = FOCUS)
       \<and> (distinct (map mesh (particlesRef s)) \<longrightarrow>
              length (filter (\<lambda>p. focusTargetRef s = Some (mesh p)) (particlesRef s)) \<le> 1)"
proof (intro conjI impI)
  assume "focusTargetRef s \<noteq> None"
  with reachable_focus_inv [OF assms] show "modeRef s = FOCUS"
    by (simp add: focus_inv_def)
next
  assume d: "distinct (map mesh (particlesRef s))"
  show "length (filter (\<lambda>p. focusTargetRef s = Some (mesh p)) (particlesRef s)) \<le> 1"
  proof (cases "focusTargetRef s")
    case None
    then show ?thesis by simp
  next
    case (Some g)
    have "filter (\<lambda>p. focusTargetRef s = Some (mesh p)) (particlesRef s)
        = filter (\<lambda>p. mesh p = g) (particlesRef s)"
      unfolding Some by (rule filter_cong) auto
    then show ?thesis using distinct_count_le_one [OF d, of g] by simp
  qed
qed

theorem focus_target_only_in_focus_witness:
  "reachable focused_state
   \<and> focusTargetRef focused_state = Some 7 \<and> modeRef focused_state = FOCUS
   \<and> distinct (map mesh (particlesRef focused_state))
   \<and> length (filter (\<lambda>p. focusTargetRef focused_state = Some (mesh p)) (particlesRef focused_state)) \<le> 1"
  using focus_target_only_in_focus [OF focused_state_reachable] focused_state_reachable
  by (simp add: focused_state_def initial_def)

section \<open>The click handler\<close>

text \<open>
  Claim C5. When the nearest object hit by the click lies, along the parent chain,
  under a group \<open>g\<close> that is a child of the photo group, the click sets the mode to
  FOCUS and the focus target to \<open>g\<close>, whatever the mode before. When nothing is hit,
  FOCUS becomes SCATTER with the focus target cleared, TREE becomes SCATTER and
  SCATTER becomes TREE.
\<close>

theorem click_hit_or_cycle:
  "(is_path parent (path @ [g]) \<and> (\<forall>c\<in>set path. parent c \<noteq> photoGroupRef s)
      \<and> parent g = photoGroupRef s \<longrightarrow>
      onClick parent (hd (path @ [g]) # others) s
        = Some (s\<lparr>focusTargetRef := Some g, modeRef := FOCUS\<rparr>))
   \<and> (modeRef s = FOCUS \<longrightarrow> onClick parent [] s = Some (s\<lparr>modeRef := SCATTER, focusTargetRef := None\<rparr>))
   \<and> (modeRef s = TREE \<longrightarrow> onClick parent [] s = Some (s\<lparr>modeRef := SCATTER\<rparr>))
   \<and> (modeRef s = SCATTER \<longrightarrow> onClick parent [] s = Some (s\<lparr>modeRef := TREE\<rparr>))"
proof (intro conjI impI)
  assume "is_path parent (path @ [g]) \<and> (\<forall>c\<in>set path. parent c \<noteq> photoGroupRef s)
      \<and> parent g = photoGroupRef s"
  then have "findTargetGroup parent (photoGroupRef s) (Some (hd (path @ [g]))) = Some (Some g)"
    by (intro findTargetGroup_path) simp_all
  then show "onClick parent (hd (path @ [g]) # others) s
        = Some (s\<lparr>focusTargetRef := Some g, modeRef := FOCUS\<rparr>)"
    by (simp add: onClick_def)
qed (simp_all add: onClick_def cycleModes_def)

theorem click_hit_or_cycle_witness:
  "is_path scene_parent ([8] @ [7])
   \<and> scene_parent 8 \<noteq> photoGroupRef tree_state
   \<and> scene_parent 7 = photoGroupRef tree_state
   \<and> onClick scene_parent [8] tree_state = Some focused_state
   \<and> onClick scene_parent [] focused_state = Some (tree_state\<lparr>modeRef := SCATTER\<rparr>)
   \<and> onClick scene_parent [] tree_state = Some (tree_state\<lparr>modeRef := SCATTER\<rparr>)
   \<and> onClick scene_parent [] (tree_state\<lparr>modeRef := SCATTER\<rparr>) = Some tree_state"
  using click_hit_or_cycle [of scene_parent "[8]" 7 tree_state "[]"]
    click_hit_or_cycle [of scene_parent "[]" 7 focused_state "[]"]
    click_hit_or_cycle [of scene_parent "[]" 7 "tree_state\<lparr>modeRef := SCATTER\<rparr>" "[]"]
  by (simp add: scene_parent_def tree_state_def focused_state_def initial_def)

section \<open>The two layouts\<close>

text \<open>
  The draws of \<open>Math.random()\<close> lie in \<open>[0, 1)\<close>; the theorems below assume the
  range of the draws they depend on.
\<close>

lemma example_isDust: "isDust (photo_particle g) = False" "isDust (dust_particle g) = True"
  by (simp_all add: photo_particle_def dust_particle_def)

lemma hypot_polar: "hypot (cos a * r) (sin a * r) = \<bar>r\<bar>"
proof -
  have "cos a * r * (cos a * r) + sin a * r * (sin a * r) = (cos a * cos a + sin a * sin a) * (r * r)"
    by (simp only: algebra_simps)
  also have "cos a * cos a + sin a * sin a = 1"
    by (simp add: power2_eq_square [symmetric])
  finally show ?thesis by (simp add: hypot_def)
qed

lemma bias_unit: "0 \<le> u \<Longrightarrow> u \<le> 1 \<Longrightarrow> 0 \<le> u powr 0.8 \<and> u powr 0.8 \<le> (1::real)"
  by (simp add: powr_le1)

lemma posTree_eq:
  "posTree (calculatePositions u1 u2 u3 u4 u5 u6 p) =
     Vector3 (cos (u1 powr 0.8 * 50 * pi + u2 * pi) * (max 0.5 (treeRadius * (1 - u1 powr 0.8)) * (0.8 + u3 * 0.4)))
             (u1 powr 0.8 * treeHeight - treeHeight / 2)
             (sin (u1 powr 0.8 * 50 * pi + u2 * pi) * (max 0.5 (treeRadius * (1 - u1 powr 0.8)) * (0.8 + u3 * 0.4)))"
  by (simp add: calculatePositions_def Let_def max_def)

text \<open>
  Claim C6. For draws in \<open>[0, 1]\<close> the tree position has its height in
  \<open>[- treeHeight / 2, treeHeight / 2]\<close> and its horizontal radius, the distance to
  the vertical axis, at most \<open>1.2 * treeRadius\<close>.
\<close>

theorem tree_layout_bounds:
  assumes "0 \<le> u1" and "u1 \<le> 1" and "0 \<le> u3" and "u3 \<le> 1"
  shows "- (treeHeight / 2) \<le> vy (posTree (calculatePositions u1 u2 u3 u4 u5 u6 p))
       \<and> vy (posTree (calculatePositions u1 u2 u3 u4 u5 u6 p)) \<le> treeHeight / 2
       \<and> hypot (vx (posTree (calculatePositions u1 u2 u3 u4 u5 u6 p)))
                (vz (posTree (calculatePositions u1 u2 u3 u4 u5 u6 p))) \<le> 1.2 * treeRadius"
proof -
  define t where "t = u1 powr 0.8"
  define rMax where "rMax = max 0.5 (treeRadius * (1 - t))"
  define r where "r = rMax * (0.8 + u3 * 0.4)"
  have t: "0 \<le> t" "t \<le> 1" using bias_unit [OF assms(1,2)] by (simp_all add: t_def)
  have rMax: "0 \<le> rMax" "rMax \<le> 8" using t by (simp_all add: rMax_def treeRadius_def)
  have j: "0 \<le> 0.8 + u3 * 0.4" "0.8 + u3 * 0.4 \<le> 1.2" using assms(3,4) by simp_all
  have r0: "0 \<le> r" unfolding r_def using rMax(1) j(1) by (rule mult_nonneg_nonneg)
  have "r \<le> 8 * 1.2" unfolding r_def using rMax(2) j(2) j(1) by (intro mult_mono) simp_all
  then have r1: "r \<le> 1.2 * treeRadius" by (simp add: treeRadius_def)
  have y: "vy (posTree (calculatePositions u1 u2 u3 u4 u5 u6 p)) = t * treeHeight - treeHeight / 2"
    by (simp add: posTree_eq t_def)
  have h: "hypot (vx (posTree (calculatePositions u1 u2 u3 u4 u5 u6 p)))
                 (vz (posTree (calculatePositions u1 u2 u3 u4 u5 u6 p))) = r"
    using r0 by (simp add: posTree_eq hypot_polar t_def rMax_def r_def)
  have "- (treeHeight / 2) \<le> t * treeHeight - treeHeight / 2"
    using t(1) by (simp add: treeHeight_def)
  moreover have "t * treeHeight - treeHeight / 2 \<le> treeHeight / 2"
    using t(2) by (simp add: treeHeight_def)
  ultimately show ?thesis using r1 by (simp add: y h)
qed

theorem tree_layout_bounds_witness:
  "(0::real) \<le> 0 \<and> (0::real) \<le> 1
   \<and> vy (posTree (calculatePositions 0 0 0 0 0 (1/2) (photo_particle 7))) = - 12
   \<and> - (treeHeight / 2) \<le> vy (posTree (calculatePositions 0 0 0 0 0 (1/2) (photo_particle 7)))
   \<and> hypot (vx (posTree (calculatePositions 0 0 0 0 0 (1/2) (photo_particle 7))))
            (vz (posTree (calculatePositions 0 0 0 0 0 (1/2) (photo_particle 7)))) \<le> 1.2 * treeRadius"
  using tree_layout_bounds [of 0 0 0 0 0 "1/2" "photo_particle 7"]
  by (simp add: posTree_eq treeHeight_def)

lemma length_spherical:
  "length_vec (Vector3 (r * sin phi * cos theta) (r * sin phi * sin theta) (r * cos phi)) = \<bar>r\<bar>"
proof -
  have "r * sin phi * cos theta * (r * sin phi * cos theta)
      + r * sin phi * sin theta * (r * sin phi * sin theta)
      + r * cos phi * (r * cos phi)
      = (r * r) * (sin phi * sin phi * (cos theta * cos theta + sin theta * sin theta) + cos phi * cos phi)"
    by (simp only: algebra_simps)
  also have "cos theta * cos theta + sin theta * sin theta = 1"
    by (simp add: power2_eq_square [symmetric])
  also have "sin phi * sin phi * 1 + cos phi * cos phi = 1"
    by (simp add: power2_eq_square [symmetric])
  finally show ?thesis by (simp add: length_vec_def)
qed

lemma posScatter_eq:
  "posScatter (calculatePositions u1 u2 u3 u4 u5 u6 p) =
     Vector3 ((if isDust p then 15 + u4 * 25 else 10 + u4 * 15) * sin (arccos (2 * u6 - 1)) * cos (u5 * pi * 2))
             ((if isDust p then 15 + u4 * 25 else 10 + u4 * 15) * sin (arccos (2 * u6 - 1)) * sin (u5 * pi * 2))
             ((if isDust p then 15 + u4 * 25 else 10 + u4 * 15) * cos (arccos (2 * u6 - 1)))"
  by (simp add: calculatePositions_def Let_def)

text \<open>
  Claim C7. The scatter position is the point of spherical coordinates
  \<open>theta = 2 pi u5\<close> in \<open>[0, 2 pi)\<close> and \<open>phi = arccos (2 u6 - 1)\<close> in
  \<open>[0, pi]\<close> at the sampled radius; its Euclidean norm is that radius, which lies in
  \<open>[15, 40]\<close> for dust and in \<open>[10, 25]\<close> otherwise.
\<close>

theorem scatter_layout_on_shell:
  assumes "0 \<le> u4" and "u4 < 1" and "0 \<le> u5" and "u5 < 1" and "0 \<le> u6" and "u6 < 1"
  shows "posScatter (calculatePositions u1 u2 u3 u4 u5 u6 p) =
           Vector3 ((if isDust p then 15 + u4 * 25 else 10 + u4 * 15) * sin (arccos (2 * u6 - 1)) * cos (u5 * pi * 2))
                   ((if isDust p then 15 + u4 * 25 else 10 + u4 * 15) * sin (arccos (2 * u6 - 1)) * sin (u5 * pi * 2))
                   ((if isDust p then 15 + u4 * 25 else 10 + u4 * 15) * cos (arccos (2 * u6 - 1)))
       \<and> length_vec (posScatter (calculatePositions u1 u2 u3 u4 u5 u6 p))
           = (if isDust p then 15 + u4 * 25 else 10 + u4 * 15)
       \<and> (if isDust p then 15 else 10) \<le> length_vec (posScatter (calculatePositions u1 u2 u3 u4 u5 u6 p))
       \<and> length_vec (posScatter (calculatePositions u1 u2 u3 u4 u5 u6 p)) \<le> (if isDust p then 40 else 25)
       \<and> 0 \<le> u5 * pi * 2 \<and> u5 * pi * 2 < 2 * pi
       \<and> 0 \<le> arccos (2 * u6 - 1) \<and> arccos (2 * u6 - 1) \<le> pi
       \<and> cos (arccos (2 * u6 - 1)) = 2 * u6 - 1"
proof -
  define rS :: real where "rS = (if isDust p then 15 + u4 * 25 else 10 + u4 * 15)"
  have rS: "(if isDust p then 15 else 10) \<le> rS" "rS \<le> (if isDust p then 40 else 25)"
    using assms(1,2) by (simp_all add: rS_def)
  then have pos: "0 \<le> rS" by (simp split: if_splits)
  have len: "length_vec (posScatter (calculatePositions u1 u2 u3 u4 u5 u6 p)) = rS"
    using pos unfolding posScatter_eq rS_def [symmetric] by (simp add: length_spherical)
  have u: "- 1 \<le> 2 * u6 - 1" "2 * u6 - 1 \<le> 1" using assms(5,6) by simp_all
  have phi: "0 \<le> arccos (2 * u6 - 1)" "arccos (2 * u6 - 1) \<le> pi"
    using arccos_bounded [OF u] by simp_all
  have c: "cos (arccos (2 * u6 - 1)) = 2 * u6 - 1" using u by (rule cos_arccos)
  have th: "0 \<le> u5 * pi * 2" "u5 * pi * 2 < 2 * pi" using assms(3,4) by simp_all
  show ?thesis
    using len rS phi c th unfolding rS_def by (simp add: posScatter_eq)
qed

theorem scatter_layout_on_shell_witness:
  "(0::real) \<le> 0 \<and> (0::real) < 1 \<and> (0::real) \<le> 1/2 \<and> (1/2::real) < 1
   \<and> posScatter (calculatePositions 0 0 0 0 0 (1/2) (photo_particle 7)) = Vector3 10 0 0
   \<and> length_vec (posScatter (calculatePositions 0 0 0 0 0 (1/2) (photo_particle 7))) = 10
   \<and> posScatter (calculatePositions 0 0 0 0 0 (1/2) (dust_particle 5)) = Vector3 15 0 0
   \<and> length_vec (posScatter (calculatePositions 0 0 0 0 0 (1/2) (dust_particle 5))) = 15"
proof -
  have h: "(0::real) \<le> 0" "(0::real) < 1" "(0::real) \<le> 1/2" "(1/2::real) < 1"
    by simp_all
  have a: "posScatter (calculatePositions 0 0 0 0 0 (1/2) (photo_particle 7)) = Vector3 10 0 0"
    "length_vec (posScatter (calculatePositions 0 0 0 0 0 (1/2) (photo_particle 7))) = 10"
    using scatter_layout_on_shell [OF h(1,2) h(1,2) h(3,4), of 0 0 0 "photo_particle 7"]
    by (auto simp: example_isDust)
  have b: "posScatter (calculatePositions 0 0 0 0 0 (1/2) (dust_particle 5)) = Vector3 15 0 0"
    "length_vec (posScatter (calculatePositions 0 0 0 0 0 (1/2) (dust_particle 5))) = 15"
    using scatter_layout_on_shell [OF h(1,2) h(1,2) h(3,4), of 0 0 0 "dust_particle 5"]
    by (auto simp: example_isDust)
  show ?thesis by (intro conjI h a b)
qed

section \<open>The per-frame update\<close>

lemma invert_identity4: "invert identity4 = identity4"
  by (simp add: invert_def det_def t11_def t12_def t13_def t14_def identity4_def)

lemma camera_points_identity4:
  "cameraPosLocal identity4 = Some (Vector3 0 0 38)"
  "cameraLocal identity4 = Some (Vector3 0 0 50)"
  by (simp_all add: cameraPosLocal_def cameraLocal_def invert_identity4 applyMatrix4_def camera_z_def)
     (simp_all add: identity4_def)

lemma affine_det:
  assumes "affine m"
  shows "det m = n31 m * (n12 m * n23 m - n13 m * n22 m)
               + n32 m * (n13 m * n21 m - n11 m * n23 m)
               + n33 m * (n11 m * n22 m - n12 m * n21 m)"
  using assms by (simp add: affine_def det_def t11_def t12_def t13_def t14_def algebra_simps)

lemma affine_invert:
  assumes "affine m" and "det m \<noteq> 0"
  shows "n41 (invert m) = 0" "n42 (invert m) = 0" "n43 (invert m) = 0" "n44 (invert m) = 1"
    "n13 (invert m) = (n12 m * n23 m - n13 m * n22 m) / det m"
    "n23 (invert m) = (n13 m * n21 m - n11 m * n23 m) / det m"
    "n33 (invert m) = (n11 m * n22 m - n12 m * n21 m) / det m"
proof -
  have a: "n41 m = 0" "n42 m = 0" "n43 m = 0" "n44 m = 1"
    using assms(1) by (simp_all add: affine_def)
  show "n41 (invert m) = 0" "n42 (invert m) = 0" "n43 (invert m) = 0"
    using assms(2) a by (simp_all add: invert_def Let_def)
  have "n12 m * n23 m * n31 m - n13 m * n22 m * n31 m + n13 m * n21 m * n32 m
      - n11 m * n23 m * n32 m - n12 m * n21 m * n33 m + n11 m * n22 m * n33 m = det m"
    unfolding affine_det [OF assms(1)] by (simp add: algebra_simps)
  then show "n44 (invert m) = 1"
    using assms(2) by (simp add: invert_def Let_def)
  show "n13 (invert m) = (n12 m * n23 m - n13 m * n22 m) / det m"
    using assms(2) a by (simp add: invert_def Let_def t13_def)
  show "n23 (invert m) = (n13 m * n21 m - n11 m * n23 m) / det m"
    using assms(2) a by (simp add: invert_def Let_def)
  show "n33 (invert m) = (n11 m * n22 m - n12 m * n21 m) / det m"
    using assms(2) a by (simp add: invert_def Let_def)
qed

lemma affine_camera_points:
  assumes "affine m" and "det m \<noteq> 0"
  shows "\<exists>a b. cameraPosLocal m = Some a \<and> cameraLocal m = Some b \<and> a \<noteq> b"
proof -
  define i where "i = invert m"
  note inv = affine_invert [OF assms, folded i_def]
  define a where "a = Vector3 (n13 i * 38 + n14 i) (n23 i * 38 + n24 i) (n33 i * 38 + n34 i)"
  define b where "b = Vector3 (n13 i * 50 + n14 i) (n23 i * 50 + n24 i) (n33 i * 50 + n34 i)"
  have pa: "cameraPosLocal m = Some a"
    using inv(1-4) by (simp add: cameraPosLocal_def applyMatrix4_def i_def [symmetric] a_def)
  have pb: "cameraLocal m = Some b"
    using inv(1-4) by (simp add: cameraLocal_def applyMatrix4_def camera_z_def i_def [symmetric] b_def)
  have "a \<noteq> b"
  proof
    assume "a = b"
    then have "n13 i = 0" "n23 i = 0" "n33 i = 0" by (simp_all add: a_def b_def)
    then have "n12 m * n23 m - n13 m * n22 m = 0" "n13 m * n21 m - n11 m * n23 m = 0"
      "n11 m * n22 m - n12 m * n21 m = 0"
      using inv(5-7) assms(2) by simp_all
    then have "det m = 0" unfolding affine_det [OF assms(1)] by simp
    with assms(2) show False by simp
  qed
  with pa pb show ?thesis by blast
qed

lemma lerp_vec_zero: "lerp_vec a b 0 = a"
  by (simp add: lerp_vec_def)

lemma update_mesh: "mesh (update L dt mode time ft M p) = mesh p"
  by (simp add: update_def Let_def)

lemma update_zero_step:
  assumes "mode = FOCUS \<and> ft = Some (mesh p) \<longrightarrow> cameraPosLocal M \<noteq> None"
  shows "mesh_position (update L 0 mode time ft M p) = mesh_position p"
    and "mesh_scale (update L 0 mode time ft M p) = mesh_scale p"
proof -
  show "mesh_scale (update L 0 mode time ft M p) = mesh_scale p"
    by (simp add: update_def Let_def lerp_vec_zero)
  show "mesh_position (update L 0 mode time ft M p) = mesh_position p"
  proof (cases "mesh_position p")
    case None
    then show ?thesis by (simp add: update_def Let_def lerp_nf_def)
  next
    case (Some a)
    show ?thesis
    proof (cases "mode = FOCUS \<and> ft = Some (mesh p)")
      case True
      with assms obtain c where "cameraPosLocal M = Some c" by auto
      with True Some show ?thesis
        by (simp add: update_def Let_def lerp_nf_def lerp_vec_zero)
    next
      case False
      with Some show ?thesis
        by (auto simp: update_def Let_def lerp_nf_def lerp_vec_zero)
    qed
  qed
qed

lemma update_zero_steps:
  assumes "mode = FOCUS \<and> ft = Some (mesh p) \<longrightarrow> cameraPosLocal M \<noteq> None"
  shows "mesh_position (foldl (\<lambda>q t. update L 0 mode t ft M q) p ts) = mesh_position p
       \<and> mesh_scale (foldl (\<lambda>q t. update L 0 mode t ft M q) p ts) = mesh_scale p"
  using assms
proof (induction ts arbitrary: p)
  case Nil
  show ?case by simp
next
  case (Cons t ts)
  have "mode = FOCUS \<and> ft = Some (mesh (update L 0 mode t ft M p)) \<longrightarrow> cameraPosLocal M \<noteq> None"
    using Cons.prems by (simp add: update_mesh)
  from Cons.IH [OF this] update_zero_step [OF Cons.prems, of L t]
  show ?case by simp
qed

lemma rotation_affine: "affine (makeRotationFromEuler x y z)"
  by (simp add: affine_def makeRotationFromEuler_def Let_def)

lemma sin_square: "sin t * sin t = 1 - cos t * cos (t::real)"
proof -
  have "(sin t)\<^sup>2 + (cos t)\<^sup>2 = 1" by simp
  then show ?thesis by (simp add: power2_eq_square algebra_simps)
qed

lemma rotation_det: "det (makeRotationFromEuler x y z) = 1"
proof -
  define a b c d e f where "a = cos x" and "b = sin x" and "c = cos y" and "d = sin y"
    and "e = cos z" and "f = sin z"
  have sx: "b * b = 1 - a * a" and sy: "d * d = 1 - c * c" and sz: "f * f = 1 - e * e"
    by (simp_all add: a_def b_def c_def d_def e_def f_def sin_square)
  have "det (makeRotationFromEuler x y z)
      = (e * e + f * f) * ((a * a + b * b) * (c * c + d * d))"
    unfolding affine_det [OF rotation_affine]
    by (simp add: makeRotationFromEuler_def Let_def a_def [symmetric] b_def [symmetric]
        c_def [symmetric] d_def [symmetric] e_def [symmetric] f_def [symmetric])
       (simp only: algebra_simps)
  also have "\<dots> = 1" by (simp add: sx sy sz)
  finally show ?thesis .
qed

text \<open>
  Claim C8. With \<open>dt = 0\<close>, \<open>update\<close> leaves the position and the scale of the
  particle as they are, once or any number of times, for every particle state, mode,
  elapsed time and focus target, and for every group world transform that is affine
  and invertible: the transforms \<open>update\<close> is called with are the rotations of
  the main group (\<open>rotation_affine\<close>, \<open>rotation_det\<close>).
\<close>

theorem update_dt_zero_fixed:
  assumes "affine M" and "det M \<noteq> 0"
  shows "mesh_position (update L 0 mode time focusTarget M p) = mesh_position p
       \<and> mesh_scale (update L 0 mode time focusTarget M p) = mesh_scale p
       \<and> mesh_position (foldl (\<lambda>q t. update L 0 mode t focusTarget M q) p ts) = mesh_position p
       \<and> mesh_scale (foldl (\<lambda>q t. update L 0 mode t focusTarget M q) p ts) = mesh_scale p"
proof -
  have "cameraPosLocal M \<noteq> None"
    using affine_camera_points [OF assms] by auto
  then have c: "mode = FOCUS \<and> focusTarget = Some (mesh p) \<longrightarrow> cameraPosLocal M \<noteq> None"
    by simp
  show ?thesis
    using update_zero_step [OF c] update_zero_steps [OF c] by simp
qed

theorem update_dt_zero_fixed_witness:
  "affine (makeRotationFromEuler 0 (pi / 2) 0) \<and> det (makeRotationFromEuler 0 (pi / 2) 0) \<noteq> 0
   \<and> mesh_position (update (\<lambda>pos target. target) 0 FOCUS 0 (Some 7)
         (makeRotationFromEuler 0 (pi / 2) 0) (photo_particle 7)) = Some (Vector3 10 0 0)
   \<and> mesh_scale (update (\<lambda>pos target. target) 0 FOCUS 0 (Some 7)
         (makeRotationFromEuler 0 (pi / 2) 0) (photo_particle 7)) = Vector3 0.8 0.8 0.8
   \<and> mesh_position (foldl (\<lambda>q t. update (\<lambda>pos target. target) 0 FOCUS t (Some 7)
         (makeRotationFromEuler 0 (pi / 2) 0) q) (photo_particle 7) [1, 2, 3]) = Some (Vector3 10 0 0)
   \<and> mesh_scale (foldl (\<lambda>q t. update (\<lambda>pos target. target) 0 FOCUS t (Some 7)
         (makeRotationFromEuler 0 (pi / 2) 0) q) (photo_particle 7) [1, 2, 3]) = Vector3 0.8 0.8 0.8"
proof -
  have h: "affine (makeRotationFromEuler 0 (pi / 2) 0)" "det (makeRotationFromEuler 0 (pi / 2) 0) \<noteq> 0"
    by (simp_all add: rotation_affine rotation_det)
  show ?thesis
    using h update_dt_zero_fixed [OF h, of "\<lambda>pos target. target" FOCUS 0 "Some 7" "photo_particle 7" "[1, 2, 3]"]
    by (simp add: photo_particle_def)
qed

text \<open>
  Claim C9, as the code has it. For the focus target in mode FOCUS, the position
  target and the point passed to \<open>lookAt\<close> are both obtained by applying the
  inverse of the group's world transform, the first to \<open>(0, 0, 38)\<close> and the second
  to the camera position \<open>(0, 0, 50)\<close>; for every invertible affine transform both
  are finite points and they are different.
\<close>

theorem focus_camera_points:
  "mesh_position (update L dt FOCUS time (Some (mesh p)) M p)
     = lerp_nf (mesh_position p) (applyMatrix4 (Vector3 0 0 38) (invert M)) (3.5 * dt)
   \<and> mesh_rotation (update L dt FOCUS time (Some (mesh p)) M p)
     = L (mesh_position (update L dt FOCUS time (Some (mesh p)) M p))
         (applyMatrix4 (Vector3 0 0 50) (invert M))
   \<and> (affine M \<and> det M \<noteq> 0 \<longrightarrow>
        (\<exists>a b. applyMatrix4 (Vector3 0 0 38) (invert M) = Some a
             \<and> applyMatrix4 (Vector3 0 0 50) (invert M) = Some b \<and> a \<noteq> b))"
proof (intro conjI impI)
  show "mesh_position (update L dt FOCUS time (Some (mesh p)) M p)
     = lerp_nf (mesh_position p) (applyMatrix4 (Vector3 0 0 38) (invert M)) (3.5 * dt)"
    by (simp add: update_def Let_def cameraPosLocal_def)
  show "mesh_rotation (update L dt FOCUS time (Some (mesh p)) M p)
     = L (mesh_position (update L dt FOCUS time (Some (mesh p)) M p))
         (applyMatrix4 (Vector3 0 0 50) (invert M))"
    by (simp add: update_def Let_def cameraLocal_def camera_z_def)
  assume "affine M \<and> det M \<noteq> 0"
  then show "\<exists>a b. applyMatrix4 (Vector3 0 0 38) (invert M) = Some a
             \<and> applyMatrix4 (Vector3 0 0 50) (invert M) = Some b \<and> a \<noteq> b"
    using affine_camera_points [of M]
    by (simp add: cameraPosLocal_def cameraLocal_def camera_z_def)
qed

theorem focus_camera_points_witness:
  "affine identity4 \<and> det identity4 \<noteq> 0
   \<and> applyMatrix4 (Vector3 0 0 38) (invert identity4) = Some (Vector3 0 0 38)
   \<and> applyMatrix4 (Vector3 0 0 50) (invert identity4) = Some (Vector3 0 0 50)"
  using focus_camera_points [of "\<lambda>pos target. target" 0 0 "photo_particle 7" identity4]
    camera_points_identity4
  by (simp add: cameraPosLocal_def cameraLocal_def camera_z_def)
     (simp add: affine_def det_def t11_def t12_def t13_def t14_def identity4_def)

text \<open>
  With the identity as group transform and a \<open>lookAt\<close> that returns the point it
  is given, a step that carries the particle onto its position target shows the two
  points: \<open>(0, 0, 38)\<close> and \<open>(0, 0, 50)\<close>.
\<close>

theorem look_at_point_differs_counterexample:
  "mesh_position (update (\<lambda>pos target. target) (2/7) FOCUS 0 (Some 7) identity4 (photo_particle 7))
     = Some (Vector3 0 0 38)
   \<and> mesh_rotation (update (\<lambda>pos target. target) (2/7) FOCUS 0 (Some 7) identity4 (photo_particle 7))
     = Some (Vector3 0 0 50)"
  by (simp add: update_def Let_def lerp_nf_def lerp_vec_def camera_points_identity4 photo_particle_def)

text \<open>
  Claim C10. For the focus target in mode FOCUS, the rotation after \<open>update\<close> is
  the one \<open>lookAt\<close> computes for the camera point, for every \<open>dt\<close>: it is not
  interpolated. With \<open>dt = 0\<close> the rotation is unchanged only if it already is that
  orientation, so there are rotations that a call with \<open>dt = 0\<close> changes.
\<close>

theorem look_at_not_scaled_by_dt:
  "mesh_rotation (update L dt FOCUS time (Some (mesh p)) M p)
     = L (mesh_position (update L dt FOCUS time (Some (mesh p)) M p)) (cameraLocal M)
   \<and> ((mesh_rotation (update L 0 FOCUS time (Some (mesh p)) M p) = mesh_rotation p)
        = (mesh_rotation p = L (mesh_position (update L 0 FOCUS time (Some (mesh p)) M p)) (cameraLocal M)))
   \<and> (\<exists>r. mesh_rotation (update L 0 FOCUS time (Some (mesh p)) M (p\<lparr>mesh_rotation := r\<rparr>)) \<noteq> r)"
proof (intro conjI)
  show rot: "\<And>dt. mesh_rotation (update L dt FOCUS time (Some (mesh p)) M p)
     = L (mesh_position (update L dt FOCUS time (Some (mesh p)) M p)) (cameraLocal M)"
    by (simp add: update_def Let_def)
  show "(mesh_rotation (update L 0 FOCUS time (Some (mesh p)) M p) = mesh_rotation p)
        = (mesh_rotation p = L (mesh_position (update L 0 FOCUS time (Some (mesh p)) M p)) (cameraLocal M))"
    unfolding rot by auto
  define pos where "pos = lerp_nf (mesh_position p) (cameraPosLocal M) (3.5 * 0)"
  define r where "r = (if L pos (cameraLocal M) = None then Some (Vector3 0 0 0) else None)"
  have "mesh_rotation (update L 0 FOCUS time (Some (mesh p)) M (p\<lparr>mesh_rotation := r\<rparr>)) = L pos (cameraLocal M)"
    by (simp add: update_def Let_def pos_def)
  moreover have "L pos (cameraLocal M) \<noteq> r" by (simp add: r_def)
  ultimately show "\<exists>r. mesh_rotation (update L 0 FOCUS time (Some (mesh p)) M (p\<lparr>mesh_rotation := r\<rparr>)) \<noteq> r"
    by (intro exI [of _ r]) simp
qed

theorem look_at_not_scaled_by_dt_witness:
  "mesh_rotation (photo_particle 7) = Some (Vector3 0 0 0)
   \<and> mesh_rotation (update (\<lambda>pos target. target) 0 FOCUS 0 (Some 7) identity4 (photo_particle 7))
       = Some (Vector3 0 0 50)"
  using look_at_not_scaled_by_dt [of "\<lambda>pos target. target" 0 0 "photo_particle 7" identity4]
  by (simp add: camera_points_identity4 photo_particle_def)

end
